theory Spec2Isabelle
  imports Main
begin

section \<open>Data model of \<^verbatim>\<open>getSpec.ts\<close>\<close>

text \<open>
  A header collection maps a header name to its value; \<^verbatim>\<open>Headers.get\<close> is the lookup
  (\<open>None\<close> for JavaScript's \<^verbatim>\<open>null\<close>) and \<^verbatim>\<open>Headers.set\<close> the update. An
  \<^verbatim>\<open>ArrayBuffer\<close> is a list of bytes, one character per byte.
\<close>

type_synonym header_map = "string \<rightharpoonup> string"
type_synonym bytes = string

text \<open>
  A \<^verbatim>\<open>Response\<close> of the fetch API: its status, its headers and its body
  (\<open>None\<close> when \<^verbatim>\<open>response.body\<close> is \<^verbatim>\<open>null\<close>). \<^verbatim>\<open>response.ok\<close> is derived from the
  status, as the fetch standard defines it.
\<close>

record response =
  status :: nat
  resp_headers :: header_map
  body :: "bytes option"

definition ok :: "response \<Rightarrow> bool" where
  "ok r = (200 \<le> status r \<and> status r \<le> 299)"

text \<open>
  \<^verbatim>\<open>new Response(error.message)\<close>: the response synthesized from a transport error has
  the message as its body and the constructor's defaults otherwise (status 200).
\<close>

definition errorResponse :: "string \<Rightarrow> response" where
  "errorResponse msg =
     \<lparr>status = 200,
      resp_headers = [''content-type'' \<mapsto> ''text/plain;charset=UTF-8''],
      body = Some msg\<rparr>"

text \<open>
  The result of \<^verbatim>\<open>getResolvedInput\<close>, which is computed outside this file: the tag
  \<^verbatim>\<open>type\<close> (a string, compared with \<^verbatim>\<open>'url'\<close>) and the path.
\<close>

record resolved_input =
  rtype :: string
  path :: string

text \<open>\<^verbatim>\<open>WatchValues\<close>: the caller-owned state that getSpec reads and mutates.\<close>

record watch_values =
  headers :: header_map
  isHeadMethodSupported :: "bool option"
  lastValue :: "string option"

text \<open>
  \<^verbatim>\<open>RequestInit\<close>, as far as getSpec looks into it: an optional method, optional
  headers, and the remaining options, which are passed through untouched. An absent
  \<^verbatim>\<open>fetchOptions\<close> behaves as the record with every field absent.
\<close>

record fetch_options =
  fo_method :: "string option"
  fo_headers :: "header_map option"
  fo_rest :: "(string \<times> string) list"

text \<open>
  The arguments of one call, the watch state apart, which is part of the world. The input
  path comes resolved: \<open>resolvedInput\<close> is the value that line 43 computes from it.
\<close>

record call =
  fetchOptions :: fetch_options
  resolvedInput :: resolved_input
  timeout :: "nat option"

text \<open>The argument of \<^verbatim>\<open>sendRequest\<close>: the fetch options after the spread, time-out, URL.\<close>

record request =
  req_method :: string
  req_headers :: "header_map option"
  req_rest :: "(string \<times> string) list"
  req_timeout :: "nat option"
  req_url :: string

text \<open>
  The context handed to \<^verbatim>\<open>onPreRequest\<close> and \<^verbatim>\<open>onPostRequest\<close>. The duration is
  wall-clock time and is left out.
\<close>

record hook_context =
  hk_headers :: header_map
  hk_method :: string
  hk_timeout :: "nat option"
  hk_url :: string

text \<open>
  What one call does to the outside world, in order: a pre-request hook, a transport
  call, a post-request hook (with the response and, after a failure, the error message).
  The hooks are optional observers: the points where they are called are recorded whether
  or not a hook is installed, and a hook is taken to return normally.
\<close>

datatype event =
    PreRequest hook_context
  | Sent request
  | PostRequest hook_context response "string option"

text \<open>\<^verbatim>\<open>SpecResponse | SpecError\<close>.\<close>

datatype error_kind = not_modified | not_ok

datatype spec_result =
    SpecResponse "bytes option" resolved_input
  | SpecError error_kind response

text \<open>
  The transport \<^verbatim>\<open>sendRequest\<close> is external. It answers a request with a response or fails
  with an error message, and it may answer the same request differently the next time, so
  it carries a state of its own.
\<close>

type_synonym 'net transport = "'net \<Rightarrow> request \<Rightarrow> (string + response) \<times> 'net"

record 'net world =
  watch :: watch_values
  net :: 'net
  trace :: "event list"

section \<open>The fetcher\<close>

text \<open>JavaScript truthiness of an optional string: defined and not empty.\<close>

definition truthy :: "string option \<Rightarrow> bool" where
  "truthy v = (case v of None \<Rightarrow> False | Some s \<Rightarrow> s \<noteq> [])"

text \<open>
  Modelled from the spec: \<^verbatim>\<open>mergeHeaders\<close> of the client-fetch bundle is not among the
  sources. It merges the caller-supplied headers with the watch validators; a later
  collection overrides an earlier one, an absent one contributes nothing.
\<close>

definition mergeHeaders :: "header_map option \<Rightarrow> header_map option \<Rightarrow> header_map" where
  "mergeHeaders a b =
     (case a of None \<Rightarrow> Map.empty | Some h \<Rightarrow> h) ++ (case b of None \<Rightarrow> Map.empty | Some h \<Rightarrow> h)"

text \<open>
  \<^verbatim>\<open>{ method: 'HEAD', ...fetchOptions, headers: requestHeaders }\<close> and
  \<^verbatim>\<open>{ method: 'GET', ...fetchOptions }\<close>: the spread comes after the method, so a method in
  \<^verbatim>\<open>fetchOptions\<close> replaces it; the merged headers come after the spread in the HEAD
  request only.
\<close>

definition spreadMethod :: "string \<Rightarrow> fetch_options \<Rightarrow> string" where
  "spreadMethod m fo = (case fo_method fo of None \<Rightarrow> m | Some m' \<Rightarrow> m')"

definition headRequest :: "call \<Rightarrow> watch_values \<Rightarrow> request" where
  "headRequest a w =
     \<lparr>req_method = spreadMethod ''HEAD'' (fetchOptions a),
      req_headers = Some (mergeHeaders (fo_headers (fetchOptions a)) (Some (headers w))),
      req_rest = fo_rest (fetchOptions a),
      req_timeout = timeout a,
      req_url = path (resolvedInput a)\<rparr>"

definition getRequest :: "call \<Rightarrow> request" where
  "getRequest a =
     \<lparr>req_method = spreadMethod ''GET'' (fetchOptions a),
      req_headers = fo_headers (fetchOptions a),
      req_rest = fo_rest (fetchOptions a),
      req_timeout = timeout a,
      req_url = path (resolvedInput a)\<rparr>"

definition headContext :: "call \<Rightarrow> watch_values \<Rightarrow> hook_context" where
  "headContext a w =
     \<lparr>hk_headers = mergeHeaders (fo_headers (fetchOptions a)) (Some (headers w)),
      hk_method = ''HEAD'',
      hk_timeout = timeout a,
      hk_url = path (resolvedInput a)\<rparr>"

definition getContext :: "call \<Rightarrow> hook_context" where
  "getContext a =
     \<lparr>hk_headers = mergeHeaders (fo_headers (fetchOptions a)) None,
      hk_method = ''GET'',
      hk_timeout = timeout a,
      hk_url = path (resolvedInput a)\<rparr>"

text \<open>
  Lines 132 to 140: the entity tag. \<open>None\<close> is \<^verbatim>\<open>hasChanged === undefined\<close>. The stored
  value is overwritten only when the tag differs.
\<close>

definition checkETag :: "response \<Rightarrow> watch_values \<Rightarrow> bool option \<times> watch_values" where
  "checkETag r w =
     (case resp_headers r ''ETag'' of
        None \<Rightarrow> (None, w)
      | Some eTag \<Rightarrow>
          if eTag = [] then (None, w)
          else if Some eTag \<noteq> headers w ''If-None-Match''
            then (Some True, w\<lparr>headers := (headers w)(''If-None-Match'' \<mapsto> eTag)\<rparr>)
            else (Some False, w))"

text \<open>Lines 142 to 151: the modification date, looked at only while nothing is decided.\<close>

definition checkLastModified ::
  "bool option \<Rightarrow> response \<Rightarrow> watch_values \<Rightarrow> bool option \<times> watch_values" where
  "checkLastModified hasChanged r w =
     (if hasChanged = None then
        (case resp_headers r ''Last-Modified'' of
           None \<Rightarrow> (None, w)
         | Some lastModified \<Rightarrow>
             if lastModified = [] then (None, w)
             else if Some lastModified \<noteq> headers w ''If-Modified-Since''
               then (Some True, w\<lparr>headers := (headers w)(''If-Modified-Since'' \<mapsto> lastModified)\<rparr>)
               else (Some False, w))
      else (hasChanged, w))"

definition checkValidators :: "response \<Rightarrow> watch_values \<Rightarrow> bool option \<times> watch_values" where
  "checkValidators r w =
     (case checkETag r w of (hasChanged, w') \<Rightarrow> checkLastModified hasChanged r w')"

text \<open>
  Lines 111 to 160, after a HEAD response has passed the status test of line 84:
  \<open>Inl\<close> is an early return, \<open>Inr\<close> carries \<^verbatim>\<open>hasChanged\<close> on to the GET request.
\<close>

definition afterHead :: "response \<Rightarrow> watch_values \<Rightarrow> (spec_result + bool option) \<times> watch_values" where
  "afterHead r w =
     (if \<not> ok r \<and> isHeadMethodSupported w = Some True then (Inl (SpecError not_ok r), w)
      else
        let w1 = (if isHeadMethodSupported w = None
                  then w\<lparr>isHeadMethodSupported := Some (ok r)\<rparr> else w)
        in if status r = 304 then (Inl (SpecError not_modified r), w1)
           else case checkValidators r w1 of (hasChanged, w2) \<Rightarrow>
             if hasChanged = Some False then (Inl (SpecError not_modified r), w2)
             else (Inr hasChanged, w2))"

text \<open>
  Lines 53 to 160: the HEAD probe, for a transport whose failure is an error with a
  message. The raise of the catch block for other thrown values is in \<open>headProbe_raw\<close>.
\<close>

definition headProbe ::
  "'net transport \<Rightarrow> call \<Rightarrow> 'net world \<Rightarrow> (spec_result + bool option) \<times> 'net world" where
  "headProbe send a s =
     (let ctx = headContext a (watch s);
          req = headRequest a (watch s)
      in case send (net s) req of
           (Inl msg, n) \<Rightarrow>
             (Inl (SpecError not_ok (errorResponse msg)),
              s\<lparr>net := n,
                trace := trace s @
                  [PreRequest ctx, Sent req, PostRequest ctx (errorResponse msg) (Some msg)]\<rparr>)
         | (Inr r, n) \<Rightarrow>
             let s1 = s\<lparr>net := n,
                        trace := trace s @ [PreRequest ctx, Sent req, PostRequest ctx r None]\<rparr>
             in if 300 \<le> status r then (Inl (SpecError not_ok r), s1)
                else case afterHead r (watch s) of
                       (res, w) \<Rightarrow> (res, s1\<lparr>watch := w\<rparr>))"

text \<open>Lines 246 to 254: the final return.\<close>

definition finalResult ::
  "bool option \<Rightarrow> response option \<Rightarrow> bytes option \<Rightarrow> resolved_input \<Rightarrow> spec_result" where
  "finalResult hasChanged resp arrayBuffer ri =
     (case resp of
        Some r \<Rightarrow> if hasChanged = Some False then SpecError not_modified r
                  else SpecResponse arrayBuffer ri
      | None \<Rightarrow> SpecResponse arrayBuffer ri)"

text \<open>
  Lines 163 to 239 and the final return: the GET request, for a transport whose failure
  is an error with a message and whose bodies can be read. The raises of the catch block
  and of line 231 are in \<open>getFetch_raw\<close>. \<open>decode\<close> is
  \<^verbatim>\<open>new TextDecoder().decode\<close>, a function of the platform.
\<close>

definition getFetch ::
  "(bytes \<Rightarrow> string) \<Rightarrow> 'net transport \<Rightarrow> call \<Rightarrow> bool option \<Rightarrow> 'net world
     \<Rightarrow> spec_result \<times> 'net world" where
  "getFetch decode send a hasChanged s =
     (let ctx = getContext a;
          req = getRequest a
      in case send (net s) req of
           (Inl msg, n) \<Rightarrow>
             (SpecError not_ok (errorResponse msg),
              s\<lparr>net := n,
                trace := trace s @
                  [PreRequest ctx, Sent req, PostRequest ctx (errorResponse msg) (Some msg)]\<rparr>)
         | (Inr r, n) \<Rightarrow>
             let s1 = s\<lparr>net := n,
                        trace := trace s @ [PreRequest ctx, Sent req, PostRequest ctx r None]\<rparr>
             in if 300 \<le> status r then (SpecError not_ok r, s1)
                else if \<not> ok r then (SpecError not_ok r, s1)
                else
                  let arrayBuffer = (case body r of None \<Rightarrow> [] | Some b \<Rightarrow> b)
                  in if hasChanged = None then
                       let content = decode arrayBuffer
                       in (finalResult (Some (Some content \<noteq> lastValue (watch s1))) (Some r)
                             (Some arrayBuffer) (resolvedInput a),
                           s1\<lparr>watch := (watch s1)\<lparr>lastValue := Some content\<rparr>\<rparr>)
                     else (finalResult hasChanged (Some r) (Some arrayBuffer) (resolvedInput a),
                           s1))"

text \<open>Lines 240 to 244: files and raw data.\<close>

definition noFetch :: "call \<Rightarrow> 'net world \<Rightarrow> spec_result \<times> 'net world" where
  "noFetch a s =
     (let w = (watch s)\<lparr>lastValue :=
                 (if \<not> truthy (lastValue (watch s)) then Some (rtype (resolvedInput a))
                  else lastValue (watch s))\<rparr>;
          hasChanged = (if truthy (lastValue w) then Some False else None)
      in (finalResult hasChanged None None (resolvedInput a), s\<lparr>watch := w\<rparr>))"

text \<open>\<^verbatim>\<open>getSpec\<close>: one poll. The result comes with the world after the call.\<close>

definition getSpec ::
  "(bytes \<Rightarrow> string) \<Rightarrow> 'net transport \<Rightarrow> call \<Rightarrow> 'net world \<Rightarrow> spec_result \<times> 'net world" where
  "getSpec decode send a s =
     (if rtype (resolvedInput a) = ''url'' then
        (if truthy (lastValue (watch s)) \<and> isHeadMethodSupported (watch s) \<noteq> Some False then
           (case headProbe send a s of
              (Inl res, s') \<Rightarrow> (res, s')
            | (Inr hasChanged, s') \<Rightarrow> getFetch decode send a hasChanged s')
         else getFetch decode send a None s)
      else noFetch a s)"

text \<open>A watch session: the polls of a list of calls, one after the other, on one world.\<close>

fun session ::
  "(bytes \<Rightarrow> string) \<Rightarrow> 'net transport \<Rightarrow> call list \<Rightarrow> 'net world
     \<Rightarrow> spec_result list \<times> 'net world" where
  "session decode send [] s = ([], s)"
| "session decode send (a # as) s =
     (case getSpec decode send a s of
        (res, s1) \<Rightarrow> (case session decode send as s1 of (rs, s2) \<Rightarrow> (res # rs, s2)))"

section \<open>The fetcher over a raw transport\<close>

text \<open>
  The definitions above take a transport whose failure is an error with a message and
  whose bodies can be read. The source can also raise, in two places. Both catch blocks
  read \<^verbatim>\<open>error.message\<close> of whatever was thrown (lines 100, 107, 209 and 216), which
  itself throws a \<^verbatim>\<open>TypeError\<close> when the thrown value is \<^verbatim>\<open>null\<close> or \<^verbatim>\<open>undefined\<close>;
  and \<^verbatim>\<open>await response.arrayBuffer()\<close> (line 231) stands outside every \<^verbatim>\<open>try\<close> and
  may reject. What follows is the same function over a transport that may do both, with
  one more result: the error that \<open>getSpec\<close> is rejected with.

  A thrown value is \<^verbatim>\<open>null\<close> or \<^verbatim>\<open>undefined\<close>, or any other value, given by its
  \<^verbatim>\<open>message\<close> (\<open>None\<close> when it has none). A reply is a response together with the error
  that reading its body fails with, if it fails.
\<close>

datatype thrown = Nullish | Thrown "string option"

datatype raised = TypeError | BodyError string

record reply =
  rp_response :: response
  rp_body_error :: "string option"

type_synonym 'net raw_transport = "'net \<Rightarrow> request \<Rightarrow> (thrown + reply) \<times> 'net"

text \<open>
  \<^verbatim>\<open>new Response(error.message)\<close> for a thrown value that is not \<^verbatim>\<open>null\<close> or
  \<^verbatim>\<open>undefined\<close>: without a message the response has no body. The post-request hook is
  handed the thrown value; the trace keeps its message, empty when it has none.
\<close>

definition thrownResponse :: "string option \<Rightarrow> response" where
  "thrownResponse m =
     (case m of
        None \<Rightarrow> \<lparr>status = 200, resp_headers = Map.empty, body = None\<rparr>
      | Some msg \<Rightarrow> errorResponse msg)"

definition thrownMessage :: "string option \<Rightarrow> string" where
  "thrownMessage m = (case m of None \<Rightarrow> [] | Some msg \<Rightarrow> msg)"

text \<open>
  The object that \<open>getSpec\<close> returns, with the four fields of \<^verbatim>\<open>SpecResponse\<close> and
  \<^verbatim>\<open>SpecError\<close>; \<open>None\<close> is a field that is absent or \<^verbatim>\<open>undefined\<close>. The source returns
  three object literals: \<^verbatim>\<open>{ error: 'not-ok', response }\<close>,
  \<^verbatim>\<open>{ error: 'not-modified', response }\<close> and \<^verbatim>\<open>{ arrayBuffer, resolvedInput }\<close>.
\<close>

record spec_object =
  o_arrayBuffer :: "bytes option"
  o_error :: "error_kind option"
  o_resolvedInput :: "resolved_input option"
  o_response :: "response option"

definition notOkObject :: "response \<Rightarrow> spec_object" where
  "notOkObject r =
     \<lparr>o_arrayBuffer = None, o_error = Some not_ok, o_resolvedInput = None,
      o_response = Some r\<rparr>"

definition notModifiedObject :: "response \<Rightarrow> spec_object" where
  "notModifiedObject r =
     \<lparr>o_arrayBuffer = None, o_error = Some not_modified, o_resolvedInput = None,
      o_response = Some r\<rparr>"

definition contentObject :: "bytes option \<Rightarrow> resolved_input \<Rightarrow> spec_object" where
  "contentObject arrayBuffer ri =
     \<lparr>o_arrayBuffer = arrayBuffer, o_error = None, o_resolvedInput = Some ri,
      o_response = None\<rparr>"

text \<open>Lines 111 to 160, as \<open>afterHead\<close>, returning objects.\<close>

definition afterHead_raw ::
  "response \<Rightarrow> watch_values \<Rightarrow> (spec_object + bool option) \<times> watch_values" where
  "afterHead_raw r w =
     (if \<not> ok r \<and> isHeadMethodSupported w = Some True then (Inl (notOkObject r), w)
      else
        let w1 = (if isHeadMethodSupported w = None
                  then w\<lparr>isHeadMethodSupported := Some (ok r)\<rparr> else w)
        in if status r = 304 then (Inl (notModifiedObject r), w1)
           else case checkValidators r w1 of (hasChanged, w2) \<Rightarrow>
             if hasChanged = Some False then (Inl (notModifiedObject r), w2)
             else (Inr hasChanged, w2))"

text \<open>
  Lines 53 to 160. The outer \<open>Inl\<close> is a raise, \<open>Inr (Inl obj)\<close> an early return and
  \<open>Inr (Inr hasChanged)\<close> goes on to the GET request. After \<^verbatim>\<open>null\<close> or \<^verbatim>\<open>undefined\<close>
  is thrown, the argument of the post-request hook cannot be built, so the hook is not
  called.
\<close>

definition headProbe_raw ::
  "'net raw_transport \<Rightarrow> call \<Rightarrow> 'net world
     \<Rightarrow> (raised + spec_object + bool option) \<times> 'net world" where
  "headProbe_raw send a s =
     (let ctx = headContext a (watch s);
          req = headRequest a (watch s)
      in case send (net s) req of
           (Inl Nullish, n) \<Rightarrow>
             (Inl TypeError,
              s\<lparr>net := n, trace := trace s @ [PreRequest ctx, Sent req]\<rparr>)
         | (Inl (Thrown m), n) \<Rightarrow>
             (Inr (Inl (notOkObject (thrownResponse m))),
              s\<lparr>net := n,
                trace := trace s @
                  [PreRequest ctx, Sent req,
                   PostRequest ctx (thrownResponse m) (Some (thrownMessage m))]\<rparr>)
         | (Inr rp, n) \<Rightarrow>
             let r = rp_response rp;
                 s1 = s\<lparr>net := n,
                        trace := trace s @ [PreRequest ctx, Sent req, PostRequest ctx r None]\<rparr>
             in if 300 \<le> status r then (Inr (Inl (notOkObject r)), s1)
                else case afterHead_raw r (watch s) of
                       (res, w) \<Rightarrow> (Inr res, s1\<lparr>watch := w\<rparr>))"

text \<open>Lines 246 to 254.\<close>

definition finalResult_raw ::
  "bool option \<Rightarrow> response option \<Rightarrow> bytes option \<Rightarrow> resolved_input \<Rightarrow> spec_object" where
  "finalResult_raw hasChanged resp arrayBuffer ri =
     (case resp of
        Some r \<Rightarrow> if hasChanged = Some False then notModifiedObject r
                  else contentObject arrayBuffer ri
      | None \<Rightarrow> contentObject arrayBuffer ri)"

text \<open>
  The buffer of line 230: empty when the response has no body; otherwise the body is
  read, and a failing read rejects the call.
\<close>

definition readBody :: "reply \<Rightarrow> raised + bytes" where
  "readBody rp =
     (case body (rp_response rp) of
        None \<Rightarrow> Inr []
      | Some b \<Rightarrow>
          (case rp_body_error rp of
             None \<Rightarrow> Inr b
           | Some err \<Rightarrow> Inl (BodyError err)))"

text \<open>Lines 163 to 239 and the final return.\<close>

definition getFetch_raw ::
  "(bytes \<Rightarrow> string) \<Rightarrow> 'net raw_transport \<Rightarrow> call \<Rightarrow> bool option \<Rightarrow> 'net world
     \<Rightarrow> (raised + spec_object) \<times> 'net world" where
  "getFetch_raw decode send a hasChanged s =
     (let ctx = getContext a;
          req = getRequest a
      in case send (net s) req of
           (Inl Nullish, n) \<Rightarrow>
             (Inl TypeError,
              s\<lparr>net := n, trace := trace s @ [PreRequest ctx, Sent req]\<rparr>)
         | (Inl (Thrown m), n) \<Rightarrow>
             (Inr (notOkObject (thrownResponse m)),
              s\<lparr>net := n,
                trace := trace s @
                  [PreRequest ctx, Sent req,
                   PostRequest ctx (thrownResponse m) (Some (thrownMessage m))]\<rparr>)
         | (Inr rp, n) \<Rightarrow>
             let r = rp_response rp;
                 s1 = s\<lparr>net := n,
                        trace := trace s @ [PreRequest ctx, Sent req, PostRequest ctx r None]\<rparr>
             in if 300 \<le> status r then (Inr (notOkObject r), s1)
                else if \<not> ok r then (Inr (notOkObject r), s1)
                else
                  (case readBody rp of
                     Inl err \<Rightarrow> (Inl err, s1)
                   | Inr arrayBuffer \<Rightarrow>
                       if hasChanged = None then
                         let content = decode arrayBuffer
                         in (Inr (finalResult_raw (Some (Some content \<noteq> lastValue (watch s1)))
                                   (Some r) (Some arrayBuffer) (resolvedInput a)),
                             s1\<lparr>watch := (watch s1)\<lparr>lastValue := Some content\<rparr>\<rparr>)
                       else (Inr (finalResult_raw hasChanged (Some r) (Some arrayBuffer)
                                   (resolvedInput a)),
                             s1)))"

text \<open>Lines 240 to 244.\<close>

definition noFetch_raw :: "call \<Rightarrow> 'net world \<Rightarrow> spec_object \<times> 'net world" where
  "noFetch_raw a s =
     (let w = (watch s)\<lparr>lastValue :=
                 (if \<not> truthy (lastValue (watch s)) then Some (rtype (resolvedInput a))
                  else lastValue (watch s))\<rparr>;
          hasChanged = (if truthy (lastValue w) then Some False else None)
      in (finalResult_raw hasChanged None None (resolvedInput a), s\<lparr>watch := w\<rparr>))"

text \<open>\<^verbatim>\<open>getSpec\<close>: \<open>Inl\<close> is the error the call is rejected with, \<open>Inr\<close> the object returned.\<close>

definition getSpec_raw ::
  "(bytes \<Rightarrow> string) \<Rightarrow> 'net raw_transport \<Rightarrow> call \<Rightarrow> 'net world
     \<Rightarrow> (raised + spec_object) \<times> 'net world" where
  "getSpec_raw decode send a s =
     (if rtype (resolvedInput a) = ''url'' then
        (if truthy (lastValue (watch s)) \<and> isHeadMethodSupported (watch s) \<noteq> Some False then
           (case headProbe_raw send a s of
              (Inl err, s') \<Rightarrow> (Inl err, s')
            | (Inr (Inl obj), s') \<Rightarrow> (Inr obj, s')
            | (Inr (Inr hasChanged), s') \<Rightarrow> getFetch_raw decode send a hasChanged s')
         else getFetch_raw decode send a None s)
      else (case noFetch_raw a s of (obj, s') \<Rightarrow> (Inr obj, s')))"

text \<open>
  The transport of the first definitions, as a raw transport: its failure is an error with
  that message, and every body can be read. The result of the first definitions, as the
  object returned.
\<close>

definition rawOf :: "'net transport \<Rightarrow> 'net raw_transport" where
  "rawOf send n q =
     (case send n q of
        (Inl msg, n') \<Rightarrow> (Inl (Thrown (Some msg)), n')
      | (Inr r, n') \<Rightarrow> (Inr \<lparr>rp_response = r, rp_body_error = None\<rparr>, n'))"

fun objectOf :: "spec_result \<Rightarrow> spec_object" where
  "objectOf (SpecResponse arrayBuffer ri) = contentObject arrayBuffer ri"
| "objectOf (SpecError not_ok r) = notOkObject r"
| "objectOf (SpecError not_modified r) = notModifiedObject r"

section \<open>Reading a trace\<close>

text \<open>The transport calls of a trace, in order.\<close>

fun sentRequests :: "event list \<Rightarrow> request list" where
  "sentRequests [] = []"
| "sentRequests (PreRequest c # es) = sentRequests es"
| "sentRequests (Sent q # es) = q # sentRequests es"
| "sentRequests (PostRequest c r e # es) = sentRequests es"

text \<open>The events that a step from world \<open>s\<close> to world \<open>s'\<close> has added.\<close>

definition newEvents :: "'net world \<Rightarrow> 'net world \<Rightarrow> event list" where
  "newEvents s s' = drop (length (trace s)) (trace s')"

text \<open>
  The responses that the GET requests of a trace were answered with, read from the
  post-request hooks, and the traces of a server that answers every request with success
  and sends neither an entity tag nor a modification date.
\<close>

fun getResponses :: "event list \<Rightarrow> response list" where
  "getResponses [] = []"
| "getResponses (PreRequest c # es) = getResponses es"
| "getResponses (Sent q # es) = getResponses es"
| "getResponses (PostRequest c r e # es) =
     (if hk_method c = ''GET'' then r # getResponses es else getResponses es)"

fun plain :: "event \<Rightarrow> bool" where
  "plain (PreRequest c) = True"
| "plain (Sent q) = True"
| "plain (PostRequest c r e) =
     (e = None \<and> ok r \<and> \<not> truthy (resp_headers r ''ETag'')
      \<and> \<not> truthy (resp_headers r ''Last-Modified''))"





text \<open>The buffer read from a response: empty when the response has no body (line 230).\<close>

definition bytesOf :: "response \<Rightarrow> bytes" where
  "bytesOf r = (case body r of None \<Rightarrow> [] | Some b \<Rightarrow> b)"

section \<open>Concrete inputs\<close>

definition noOptions :: fetch_options where
  "noOptions = \<lparr>fo_method = None, fo_headers = None, fo_rest = []\<rparr>"

definition fileCall :: call where
  "fileCall = \<lparr>fetchOptions = noOptions,
               resolvedInput = \<lparr>rtype = ''file'', path = ''./openapi.json''\<rparr>,
               timeout = None\<rparr>"

definition urlCall :: call where
  "urlCall = \<lparr>fetchOptions = noOptions,
              resolvedInput = \<lparr>rtype = ''url'', path = ''https://example.com/openapi.json''\<rparr>,
              timeout = None\<rparr>"

definition freshWatch :: watch_values where
  "freshWatch = \<lparr>headers = Map.empty, isHeadMethodSupported = None, lastValue = None\<rparr>"

definition freshWorld :: "unit world" where
  "freshWorld = \<lparr>watch = freshWatch, net = (), trace = []\<rparr>"

text \<open>A source that has been fetched once: a body and an entity tag are stored.\<close>

definition polledWorld :: "bool option \<Rightarrow> unit world" where
  "polledWorld supported =
     \<lparr>watch = \<lparr>headers = [''If-None-Match'' \<mapsto> ''v1''],
                isHeadMethodSupported = supported,
                lastValue = Some ''{}''\<rparr>,
      net = (), trace = []\<rparr>"

definition plainResponse :: "nat \<Rightarrow> bytes option \<Rightarrow> response" where
  "plainResponse st b = \<lparr>status = st, resp_headers = Map.empty, body = b\<rparr>"

text \<open>The same call with a method among the fetch options.\<close>

definition urlCallWith :: "string \<Rightarrow> call" where
  "urlCallWith m = urlCall\<lparr>fetchOptions := noOptions\<lparr>fo_method := Some m\<rparr>\<rparr>"

text \<open>A response that carries the entity tag stored in \<open>polledWorld\<close>.\<close>

definition taggedResponse :: response where
  "taggedResponse = \<lparr>status = 200, resp_headers = [''ETag'' \<mapsto> ''v1''], body = None\<rparr>"

text \<open>A response that carries a modification date and no entity tag.\<close>

definition datedResponse :: response where
  "datedResponse =
     \<lparr>status = 200, resp_headers = [''Last-Modified'' \<mapsto> ''Tue, 03 Nov 2026 09:00:00 GMT''],
      body = None\<rparr>"

text \<open>A transport on which every call fails.\<close>

definition noNet :: "unit transport" where
  "noNet n q = (Inl ''unreachable'', n)"

text \<open>A server that answers every request with the tagged response.\<close>

definition taggedNet :: "unit transport" where
  "taggedNet n q = (Inr taggedResponse, n)"

text \<open>A server that answers every request with the dated response.\<close>

definition datedNet :: "unit transport" where
  "datedNet n q = (Inr datedResponse, n)"

text \<open>A server without validators that answers every request with the same document.\<close>

definition plainNet :: "unit transport" where
  "plainNet n q = (Inr (plainResponse 200 (Some ''{}'')), n)"

text \<open>
  A server without validators whose documents are the state of the transport: a GET
  request takes the next one, any other request is answered without a body.
\<close>

definition bodiesNet :: "bytes list transport" where
  "bodiesNet n q =
     (if req_method q = ''GET'' then
        (case n of
           [] \<Rightarrow> (Inl ''connection refused'', [])
         | b # bs \<Rightarrow> (Inr (plainResponse 200 (Some b)), bs))
      else (Inr (plainResponse 200 None), n))"

definition bodiesWorld :: "bytes list \<Rightarrow> bytes list world" where
  "bodiesWorld bs = \<lparr>watch = freshWatch, net = bs, trace = []\<rparr>"

text \<open>
  A transport that answers HEAD with a response of status 0 (an opaque response) and GET
  with a document.
\<close>

definition opaqueHeadNet :: "unit transport" where
  "opaqueHeadNet n q =
     (if req_method q = ''HEAD'' then (Inr (plainResponse 0 None), n)
      else (Inr (plainResponse 200 (Some ''{ }'')), n))"

text \<open>A server that answers GET with a document and HEAD with 404.\<close>

definition headlessNet :: "unit transport" where
  "headlessNet n q =
     (if req_method q = ''HEAD'' then (Inr (plainResponse 404 None), n)
      else (Inr (plainResponse 200 (Some ''{}'')), n))"

text \<open>A server that answers every request with 304.\<close>

definition unchangedNet :: "unit transport" where
  "unchangedNet n q = (Inr (plainResponse 304 None), n)"

text \<open>A raw transport on which every call is rejected with \<^verbatim>\<open>undefined\<close>.\<close>

definition nullishNet :: "unit raw_transport" where
  "nullishNet n q = (Inl Nullish, n)"

text \<open>A raw transport that answers with a document whose body cannot be read.\<close>

definition brokenBodyNet :: "unit raw_transport" where
  "brokenBodyNet n q =
     (Inr \<lparr>rp_response = plainResponse 200 (Some ''{}''), rp_body_error = Some ''terminated''\<rparr>,
      n)"

section \<open>Unfolding the fetcher\<close>

lemmas fetcher_defs =
  getSpec_def noFetch_def finalResult_def getFetch_def headProbe_def afterHead_def
  checkValidators_def checkETag_def checkLastModified_def Let_def

lemmas request_defs =
  headRequest_def getRequest_def headContext_def getContext_def spreadMethod_def
  mergeHeaders_def

lemmas input_defs =
  noOptions_def fileCall_def urlCall_def urlCallWith_def freshWatch_def freshWorld_def
  polledWorld_def bodiesWorld_def plainResponse_def taggedResponse_def datedResponse_def
  noNet_def headlessNet_def unchangedNet_def taggedNet_def datedNet_def plainNet_def
  bodiesNet_def opaqueHeadNet_def

lemmas raw_defs =
  getSpec_raw_def headProbe_raw_def getFetch_raw_def noFetch_raw_def afterHead_raw_def
  finalResult_raw_def readBody_def rawOf_def thrownResponse_def thrownMessage_def
  notOkObject_def notModifiedObject_def contentObject_def nullishNet_def brokenBodyNet_def

lemmas eval_defs =
  fetcher_defs request_defs truthy_def ok_def input_defs newEvents_def bytesOf_def

section \<open>The two requests, one at a time\<close>

lemma sentRequests_append: "sentRequests (xs @ ys) = sentRequests xs @ sentRequests ys"
  by (induction xs rule: sentRequests.induct) auto

lemma getResponses_append: "getResponses (xs @ ys) = getResponses xs @ getResponses ys"
  by (induction xs rule: getResponses.induct) auto

lemma hk_method_contexts [simp]:
  "hk_method (headContext a w) = ''HEAD''" "hk_method (getContext a) = ''GET''"
  by (simp_all add: headContext_def getContext_def)


lemma headProbe_fail:
  "send (net s) (headRequest a (watch s)) = (Inl msg, n) \<Longrightarrow>
   headProbe send a s =
     (Inl (SpecError not_ok (errorResponse msg)),
      s\<lparr>net := n,
        trace := trace s @
          [PreRequest (headContext a (watch s)), Sent (headRequest a (watch s)),
           PostRequest (headContext a (watch s)) (errorResponse msg) (Some msg)]\<rparr>)"
  by (simp add: headProbe_def Let_def)

lemma headProbe_reply:
  "send (net s) (headRequest a (watch s)) = (Inr r, n) \<Longrightarrow>
   headProbe send a s =
     (if 300 \<le> status r then Inl (SpecError not_ok r) else fst (afterHead r (watch s)),
      s\<lparr>net := n,
        trace := trace s @
          [PreRequest (headContext a (watch s)), Sent (headRequest a (watch s)),
           PostRequest (headContext a (watch s)) r None],
        watch := (if 300 \<le> status r then watch s else snd (afterHead r (watch s)))\<rparr>)"
  by (simp add: headProbe_def Let_def split: prod.splits)

lemma getFetch_fail:
  "send (net s) (getRequest a) = (Inl msg, n) \<Longrightarrow>
   getFetch decode send a hc s =
     (SpecError not_ok (errorResponse msg),
      s\<lparr>net := n,
        trace := trace s @
          [PreRequest (getContext a), Sent (getRequest a),
           PostRequest (getContext a) (errorResponse msg) (Some msg)]\<rparr>)"
  by (simp add: getFetch_def Let_def)

lemma getFetch_reply:
  "send (net s) (getRequest a) = (Inr r, n) \<Longrightarrow>
   getFetch decode send a hc s =
     (if \<not> ok r then SpecError not_ok r
      else if hc = Some False \<or> (hc = None \<and> Some (decode (bytesOf r)) = lastValue (watch s))
        then SpecError not_modified r
        else SpecResponse (Some (bytesOf r)) (resolvedInput a),
      s\<lparr>net := n,
        trace := trace s @
          [PreRequest (getContext a), Sent (getRequest a), PostRequest (getContext a) r None],
        watch := (if ok r \<and> hc = None
                  then (watch s)\<lparr>lastValue := Some (decode (bytesOf r))\<rparr> else watch s)\<rparr>)"
  by (auto simp: getFetch_def Let_def finalResult_def bytesOf_def ok_def)

lemma getSpec_file:
  "rtype (resolvedInput a) \<noteq> ''url'' \<Longrightarrow> getSpec decode send a s = noFetch a s"
  by (simp add: getSpec_def)

lemma getSpec_skip:
  "rtype (resolvedInput a) = ''url'' \<Longrightarrow>
   \<not> truthy (lastValue (watch s)) \<or> isHeadMethodSupported (watch s) = Some False \<Longrightarrow>
   getSpec decode send a s = getFetch decode send a None s"
  by (auto simp: getSpec_def)

lemma getSpec_probe:
  "rtype (resolvedInput a) = ''url'' \<Longrightarrow> truthy (lastValue (watch s)) \<Longrightarrow>
   isHeadMethodSupported (watch s) \<noteq> Some False \<Longrightarrow>
   getSpec decode send a s =
     (case headProbe send a s of
        (Inl res, s') \<Rightarrow> (res, s')
      | (Inr hasChanged, s') \<Rightarrow> getFetch decode send a hasChanged s')"
  by (simp add: getSpec_def)

text \<open>What each request adds to the trace, and when its answer ends the call.\<close>

lemma getFetch_events:
  "\<exists>r e. trace (snd (getFetch decode send a hc s)) = trace s @
       [PreRequest (getContext a), Sent (getRequest a), PostRequest (getContext a) r e]
     \<and> (e \<noteq> None \<or> \<not> ok r \<longrightarrow> fst (getFetch decode send a hc s) = SpecError not_ok r)"
proof -
  obtain x n where sent: "send (net s) (getRequest a) = (x, n)"
    by (cases "send (net s) (getRequest a)")
  show ?thesis
    using sent by (cases x) (simp_all add: getFetch_fail getFetch_reply)
qed

lemma headProbe_events:
  "\<exists>r e. trace (snd (headProbe send a s)) = trace s @
       [PreRequest (headContext a (watch s)), Sent (headRequest a (watch s)),
        PostRequest (headContext a (watch s)) r e]
     \<and> (e \<noteq> None \<or> 300 \<le> status r
          \<or> (\<not> ok r \<and> isHeadMethodSupported (watch s) = Some True)
          \<longrightarrow> fst (headProbe send a s) = Inl (SpecError not_ok r))"
proof -
  obtain x n where sent: "send (net s) (headRequest a (watch s)) = (x, n)"
    by (cases "send (net s) (headRequest a (watch s))")
  show ?thesis
  proof (cases x)
    case (Inl msg)
    then show ?thesis using sent by (simp add: headProbe_fail)
  next
    case (Inr r)
    have "\<not> ok r \<and> isHeadMethodSupported (watch s) = Some True \<Longrightarrow>
        fst (afterHead r (watch s)) = Inl (SpecError not_ok r)"
      by (simp add: afterHead_def)
    then show ?thesis
      using sent Inr by (auto simp: headProbe_reply)
  qed
qed

lemma getSpec_extends: "\<exists>es. trace (snd (getSpec decode send a s)) = trace s @ es"
proof -
  have g: "\<exists>es. trace (snd (getFetch decode send a hc t)) = trace t @ es" for hc t
    using getFetch_events [of decode send a hc t] by blast
  obtain x s1 where hp: "headProbe send a s = (x, s1)"
    by (cases "headProbe send a s")
  then have h: "\<exists>es. trace s1 = trace s @ es"
    using headProbe_events [of send a s] by auto
  show ?thesis
  proof (cases x)
    case (Inl res)
    then show ?thesis
      using hp h g [of None s] by (auto simp: getSpec_def noFetch_def Let_def)
  next
    case (Inr hc)
    obtain es1 where "trace s1 = trace s @ es1" using h by blast
    moreover obtain es2 where "trace (snd (getFetch decode send a hc s1)) = trace s1 @ es2"
      using g [of hc s1] by blast
    ultimately have "\<exists>es. trace (snd (getFetch decode send a hc s1)) = trace s @ es"
      by simp
    then show ?thesis
      using hp Inr g [of None s] by (auto simp: getSpec_def noFetch_def Let_def)
  qed
qed

section \<open>The validators\<close>

lemma checkValidators_etag:
  "truthy (resp_headers r ''ETag'') \<Longrightarrow>
   checkValidators r w =
     (Some (resp_headers r ''ETag'' \<noteq> headers w ''If-None-Match''),
      if resp_headers r ''ETag'' \<noteq> headers w ''If-None-Match''
      then w\<lparr>headers := (headers w)(''If-None-Match'' := resp_headers r ''ETag'')\<rparr> else w)"
proof -
  assume "truthy (resp_headers r ''ETag'')"
  then obtain t where "resp_headers r ''ETag'' = Some t" "t \<noteq> []"
    by (auto simp: truthy_def split: option.splits)
  then show ?thesis
    by (simp add: checkValidators_def checkETag_def checkLastModified_def)
qed

lemma checkETag_absent:
  "\<not> truthy (resp_headers r ''ETag'') \<Longrightarrow> checkETag r w = (None, w)"
  by (cases "resp_headers r ''ETag''") (simp_all add: truthy_def checkETag_def)

lemma checkValidators_date:
  "\<not> truthy (resp_headers r ''ETag'') \<Longrightarrow> truthy (resp_headers r ''Last-Modified'') \<Longrightarrow>
   checkValidators r w =
     (Some (resp_headers r ''Last-Modified'' \<noteq> headers w ''If-Modified-Since''),
      if resp_headers r ''Last-Modified'' \<noteq> headers w ''If-Modified-Since''
      then w\<lparr>headers := (headers w)(''If-Modified-Since'' := resp_headers r ''Last-Modified'')\<rparr>
      else w)"
proof -
  assume "\<not> truthy (resp_headers r ''ETag'')"
  then have e: "checkETag r w = (None, w)"
    by (rule checkETag_absent)
  assume "truthy (resp_headers r ''Last-Modified'')"
  then obtain t where "resp_headers r ''Last-Modified'' = Some t" "t \<noteq> []"
    by (auto simp: truthy_def split: option.splits)
  then show ?thesis
    by (simp add: checkValidators_def e checkLastModified_def)
qed

lemma checkValidators_none:
  "\<not> truthy (resp_headers r ''ETag'') \<Longrightarrow> \<not> truthy (resp_headers r ''Last-Modified'') \<Longrightarrow>
   checkValidators r w = (None, w)"
proof -
  assume "\<not> truthy (resp_headers r ''ETag'')"
  then have e: "checkETag r w = (None, w)"
    by (rule checkETag_absent)
  assume "\<not> truthy (resp_headers r ''Last-Modified'')"
  then have "checkLastModified None r w = (None, w)"
    by (cases "resp_headers r ''Last-Modified''") (simp_all add: truthy_def checkLastModified_def)
  then show ?thesis
    by (simp add: checkValidators_def e)
qed



section \<open>What a call leaves of the watch state\<close>

lemma checkValidators_keeps:
  "isHeadMethodSupported (snd (checkValidators r w)) = isHeadMethodSupported w"
  "lastValue (snd (checkValidators r w)) = lastValue w"
  by (auto simp: checkValidators_def checkETag_def checkLastModified_def split: option.splits)

lemma afterHead_keeps:
  "lastValue (snd (afterHead r w)) = lastValue w"
  "isHeadMethodSupported w \<noteq> None \<Longrightarrow>
     isHeadMethodSupported (snd (afterHead r w)) = isHeadMethodSupported w"
  by (simp_all add: afterHead_def Let_def case_prod_beta checkValidators_keeps)

lemma headProbe_keeps:
  "lastValue (watch (snd (headProbe send a s))) = lastValue (watch s)"
  "isHeadMethodSupported (watch s) \<noteq> None \<Longrightarrow>
     isHeadMethodSupported (watch (snd (headProbe send a s))) = isHeadMethodSupported (watch s)"
proof -
  obtain x n where sent: "send (net s) (headRequest a (watch s)) = (x, n)"
    by (cases "send (net s) (headRequest a (watch s))")
  show "lastValue (watch (snd (headProbe send a s))) = lastValue (watch s)"
    using sent by (cases x) (simp_all add: headProbe_fail headProbe_reply afterHead_keeps)
  show "isHeadMethodSupported (watch (snd (headProbe send a s))) = isHeadMethodSupported (watch s)"
    if "isHeadMethodSupported (watch s) \<noteq> None"
    using sent that by (cases x) (simp_all add: headProbe_fail headProbe_reply afterHead_keeps)
qed

lemma getFetch_keeps:
  "isHeadMethodSupported (watch (snd (getFetch decode send a hc s))) =
     isHeadMethodSupported (watch s)"
  by (auto simp: getFetch_def Let_def split: prod.splits sum.splits)


lemma getSpec_keeps:
  "isHeadMethodSupported (watch s) \<noteq> None \<Longrightarrow>
     isHeadMethodSupported (watch (snd (getSpec decode send a s))) =
       isHeadMethodSupported (watch s)"
  using headProbe_keeps(2) [of s send a]
  by (auto simp: getSpec_def noFetch_def Let_def getFetch_keeps split: prod.splits sum.splits)

lemma getSpec_unsupported:
  "isHeadMethodSupported (watch s) = Some False \<Longrightarrow>
   sentRequests (trace (snd (getSpec decode send a s))) =
     sentRequests (trace s) @ (if rtype (resolvedInput a) = ''url'' then [getRequest a] else [])"
  by (auto simp: getSpec_def noFetch_def getFetch_def Let_def sentRequests_append
      split: prod.splits sum.splits)

section \<open>Files and raw data\<close>

text \<open>
  C1. For a file, the first poll returns the content outcome without a buffer and stores
  the marker \<open>''file''\<close> as last value, and no transport call is made. The second poll
  with that watch state returns the content outcome again, not the not-modified outcome:
  line 243 sets \<^verbatim>\<open>hasChanged\<close> to \<^verbatim>\<open>false\<close>, but the final return also asks for a
  response, and this path has none.
\<close>

theorem file_second_poll_returns_content:
  "session (\<lambda>b. b) noNet [fileCall, fileCall] freshWorld =
     ([SpecResponse None (resolvedInput fileCall), SpecResponse None (resolvedInput fileCall)],
      freshWorld\<lparr>watch := freshWatch\<lparr>lastValue := Some ''file''\<rparr>\<rparr>)"
  by (simp add: fetcher_defs truthy_def input_defs)

section \<open>The HEAD probe and the status test of line 84\<close>

text \<open>
  C2. A server answers GET with a document and every HEAD with 404. The first poll fetches
  the document; the second poll is the first probing attempt and returns the not-ok
  outcome, but \<^verbatim>\<open>isHeadMethodSupported\<close> stays unknown, because the status test of line 84
  returns before line 122 is reached; so the third poll sends a HEAD request again.
\<close>

theorem head_404_leaves_support_unknown:
  "(case session (\<lambda>b. b) headlessNet [urlCall, urlCall, urlCall] freshWorld of
      (rs, s) \<Rightarrow>
        rs = [SpecResponse (Some ''{}'') (resolvedInput urlCall),
              SpecError not_ok (plainResponse 404 None),
              SpecError not_ok (plainResponse 404 None)]
        \<and> isHeadMethodSupported (watch s) = None
        \<and> map req_method (sentRequests (trace s)) = [''GET'', ''HEAD'', ''HEAD''])"
  by (simp add: fetcher_defs request_defs truthy_def ok_def input_defs)

text \<open>
  C3. A HEAD probe that is answered with status 304 returns the not-ok outcome, whether
  HEAD support was unknown or known before: 304 is not below 300, so line 84 returns
  before the test for 304 of line 125 is reached.
\<close>

theorem head_304_returns_not_ok:
  "fst (getSpec (\<lambda>b. b) unchangedNet urlCall (polledWorld None))
     = SpecError not_ok (plainResponse 304 None)
   \<and> fst (getSpec (\<lambda>b. b) unchangedNet urlCall (polledWorld (Some True)))
     = SpecError not_ok (plainResponse 304 None)"
  by (simp add: fetcher_defs request_defs truthy_def ok_def input_defs)

section \<open>Revalidation without a transfer\<close>

text \<open>
  The two requests of the fetcher are named after their role: the HEAD request is the probe
  of lines 53 to 72, \<open>headRequest\<close>, and the GET request is the fetch of lines 163 to 181,
  \<open>getRequest\<close>. The method that reaches the transport is the one of the role unless
  \<^verbatim>\<open>fetchOptions\<close> carries a method of its own. A validator is present when its header
  has a value that is not empty, which is what the source tests.

  C4. For a URL input, when the HEAD probe is sent and its response passes the status
  tests, and the response carries an entity tag equal to the stored one, or no entity tag
  and a modification date equal to the stored one, then getSpec returns the not-modified
  outcome with that response, and the probe is the only transport call of the invocation:
  no GET request is issued.
\<close>

theorem unchanged_validator_skips_get:
  assumes url: "rtype (resolvedInput a) = ''url''"
    and probe: "truthy (lastValue (watch s))" "isHeadMethodSupported (watch s) \<noteq> Some False"
    and reply: "send (net s) (headRequest a (watch s)) = (Inr r, n)"
    and st: "status r < 300" "ok r \<or> isHeadMethodSupported (watch s) = None"
    and same:
      "(truthy (resp_headers r ''ETag'')
          \<and> resp_headers r ''ETag'' = headers (watch s) ''If-None-Match'')
       \<or> (\<not> truthy (resp_headers r ''ETag'') \<and> truthy (resp_headers r ''Last-Modified'')
          \<and> resp_headers r ''Last-Modified'' = headers (watch s) ''If-Modified-Since'')"
  shows "fst (getSpec decode send a s) = SpecError not_modified r
      \<and> trace (snd (getSpec decode send a s)) = trace s @
          [PreRequest (headContext a (watch s)), Sent (headRequest a (watch s)),
           PostRequest (headContext a (watch s)) r None]
      \<and> req_method (headRequest a (watch s)) =
          (case fo_method (fetchOptions a) of None \<Rightarrow> ''HEAD'' | Some m \<Rightarrow> m)"
proof -
  let ?w1 = "if isHeadMethodSupported (watch s) = None
             then (watch s)\<lparr>isHeadMethodSupported := Some (ok r)\<rparr> else watch s"
  have "fst (checkValidators r ?w1) = Some False"
    using same by (auto simp: checkValidators_etag checkValidators_date)
  then have "fst (afterHead r (watch s)) = Inl (SpecError not_modified r)"
    using st by (auto simp: afterHead_def Let_def case_prod_beta)
  then show ?thesis
    using st(1) by (simp add: getSpec_probe [OF url probe]
        headProbe_reply [where send = send and s = s and a = a, OF reply]
        headRequest_def spreadMethod_def)
qed

text \<open>
  The stored entity tag comes back: one request, whose method is HEAD, and the
  not-modified outcome.
\<close>

theorem unchanged_validator_skips_get_witness:
  "fst (getSpec (\<lambda>b. b) taggedNet urlCall (polledWorld None))
       = SpecError not_modified taggedResponse
   \<and> map req_method (sentRequests (trace (snd
       (getSpec (\<lambda>b. b) taggedNet urlCall (polledWorld None))))) = [''HEAD'']"
proof -
  have h: "rtype (resolvedInput urlCall) = ''url''"
    "truthy (lastValue (watch (polledWorld None)))"
    "isHeadMethodSupported (watch (polledWorld None)) \<noteq> Some False"
    "taggedNet (net (polledWorld None)) (headRequest urlCall (watch (polledWorld None)))
       = (Inr taggedResponse, ())"
    "status taggedResponse < 300"
    "ok taggedResponse \<or> isHeadMethodSupported (watch (polledWorld None)) = None"
    "(truthy (resp_headers taggedResponse ''ETag'')
        \<and> resp_headers taggedResponse ''ETag''
            = headers (watch (polledWorld None)) ''If-None-Match'')
     \<or> (\<not> truthy (resp_headers taggedResponse ''ETag'')
        \<and> truthy (resp_headers taggedResponse ''Last-Modified'')
        \<and> resp_headers taggedResponse ''Last-Modified''
            = headers (watch (polledWorld None)) ''If-Modified-Since'')"
    by (simp_all add: eval_defs)
  show ?thesis
    using unchanged_validator_skips_get [where send = taggedNet and decode = "\<lambda>b. b", OF h]
    by (simp add: eval_defs)
qed

section \<open>HEAD support, once denied\<close>

text \<open>
  C5. In a watch session, whatever the calls and whatever the transport answers: a known
  value of \<^verbatim>\<open>isHeadMethodSupported\<close> is never changed (it is assigned only while unknown),
  so once it is false it is false after every later call; and from a state where it is
  false no HEAD request is issued: the transport calls of the session are exactly the GET
  requests of its calls on URL inputs.
\<close>

theorem unsupported_head_stays_unsupported:
  assumes "session decode send as s = (rs, s')"
  shows "(isHeadMethodSupported (watch s) \<noteq> None \<longrightarrow>
            isHeadMethodSupported (watch s') = isHeadMethodSupported (watch s))
       \<and> (isHeadMethodSupported (watch s) = Some False \<longrightarrow>
            sentRequests (trace s') = sentRequests (trace s) @
              map getRequest (filter (\<lambda>a. rtype (resolvedInput a) = ''url'') as))
       \<and> (\<forall>a \<in> set as. req_method (getRequest a) =
            (case fo_method (fetchOptions a) of None \<Rightarrow> ''GET'' | Some m \<Rightarrow> m))"
  using assms
proof (induction as arbitrary: s rs)
  case Nil
  then show ?case by simp
next
  case (Cons a as)
  obtain res s1 where step: "getSpec decode send a s = (res, s1)"
    by (cases "getSpec decode send a s")
  obtain rs1 where rest: "session decode send as s1 = (rs1, s')"
    using Cons.prems step by (auto split: prod.splits)
  note ih = Cons.IH [OF rest]
  have keep: "isHeadMethodSupported (watch s) \<noteq> None \<Longrightarrow>
      isHeadMethodSupported (watch s1) = isHeadMethodSupported (watch s)"
    using getSpec_keeps [of s decode send a] step by simp
  have sent: "isHeadMethodSupported (watch s) = Some False \<Longrightarrow>
      sentRequests (trace s1) = sentRequests (trace s) @
        (if rtype (resolvedInput a) = ''url'' then [getRequest a] else [])"
    using getSpec_unsupported [of s decode send a] step by simp
  have meth: "\<And>b. req_method (getRequest b) =
      (case fo_method (fetchOptions b) of None \<Rightarrow> ''GET'' | Some m \<Rightarrow> m)"
    by (simp add: getRequest_def spreadMethod_def)
  have c1: "isHeadMethodSupported (watch s) \<noteq> None \<longrightarrow>
            isHeadMethodSupported (watch s') = isHeadMethodSupported (watch s)"
    using ih keep by auto
  have c2: "isHeadMethodSupported (watch s) = Some False \<longrightarrow>
            sentRequests (trace s') = sentRequests (trace s) @
              map getRequest (filter (\<lambda>a. rtype (resolvedInput a) = ''url'') (a # as))"
  proof
    assume off: "isHeadMethodSupported (watch s) = Some False"
    then have "isHeadMethodSupported (watch s1) = Some False"
      using keep by simp
    then have "sentRequests (trace s') = sentRequests (trace s1) @
        map getRequest (filter (\<lambda>a. rtype (resolvedInput a) = ''url'') as)"
      using ih by simp
    then show "sentRequests (trace s') = sentRequests (trace s) @
        map getRequest (filter (\<lambda>a. rtype (resolvedInput a) = ''url'') (a # as))"
      using sent [OF off] by simp
  qed
  show ?case
    using c1 c2 meth by blast
qed

text \<open>
  Three polls (a URL, a file, the URL again) against a server that would answer HEAD with
  404: the flag stays false and only the two GET requests are sent.
\<close>

theorem unsupported_head_stays_unsupported_witness:
  "isHeadMethodSupported (watch (snd (session (\<lambda>b. b) headlessNet
       [urlCall, fileCall, urlCall] (polledWorld (Some False))))) = Some False
   \<and> sentRequests (trace (snd (session (\<lambda>b. b) headlessNet
       [urlCall, fileCall, urlCall] (polledWorld (Some False)))))
     = [getRequest urlCall, getRequest urlCall]
   \<and> req_method (getRequest urlCall) = ''GET''"
proof -
  have h: "session (\<lambda>b. b) headlessNet [urlCall, fileCall, urlCall] (polledWorld (Some False))
      = (fst (session (\<lambda>b. b) headlessNet [urlCall, fileCall, urlCall]
               (polledWorld (Some False))),
         snd (session (\<lambda>b. b) headlessNet [urlCall, fileCall, urlCall]
               (polledWorld (Some False))))"
    by simp
  show ?thesis
    using unsupported_head_stays_unsupported
      [where send = headlessNet and decode = "\<lambda>b. b", OF h]
    by (simp add: eval_defs)
qed

section \<open>The first poll\<close>

text \<open>
  C6. On a call for a URL input whose last value is unset (or empty), the probe is skipped:
  the events of the call are one pre-request hook, one transport call and one post-request
  hook, the transport call is the GET request, and its method is GET unless
  \<^verbatim>\<open>fetchOptions\<close> carries a method, which then replaces it.
\<close>

theorem first_poll_sends_one_get:
  assumes url: "rtype (resolvedInput a) = ''url''"
    and first: "\<not> truthy (lastValue (watch s))"
  shows "(\<exists>r e. trace (snd (getSpec decode send a s)) = trace s @
            [PreRequest (getContext a), Sent (getRequest a), PostRequest (getContext a) r e])
      \<and> sentRequests (newEvents s (snd (getSpec decode send a s))) = [getRequest a]
      \<and> req_method (getRequest a) =
          (case fo_method (fetchOptions a) of None \<Rightarrow> ''GET'' | Some m \<Rightarrow> m)"
proof -
  obtain x n where sent: "send (net s) (getRequest a) = (x, n)"
    by (cases "send (net s) (getRequest a)")
  have run: "getSpec decode send a s = getFetch decode send a None s"
    by (rule getSpec_skip [OF url]) (simp add: first)
  have "\<exists>r e. trace (snd (getSpec decode send a s)) = trace s @
            [PreRequest (getContext a), Sent (getRequest a), PostRequest (getContext a) r e]"
    using sent by (cases x) (simp_all add: run getFetch_fail getFetch_reply)
  then show ?thesis
    by (auto simp: newEvents_def getRequest_def spreadMethod_def)
qed

theorem first_poll_sends_one_get_witness:
  "sentRequests (newEvents freshWorld (snd (getSpec (\<lambda>b. b) headlessNet urlCall freshWorld)))
     = [getRequest urlCall]
   \<and> req_method (getRequest urlCall) = ''GET''"
proof -
  have h: "rtype (resolvedInput urlCall) = ''url''" "\<not> truthy (lastValue (watch freshWorld))"
    by (simp_all add: eval_defs)
  show ?thesis
    using first_poll_sends_one_get [where send = headlessNet and decode = "\<lambda>b. b", OF h]
    by (simp add: eval_defs)
qed

text \<open>
  With \<^verbatim>\<open>fetchOptions = { method: 'POST' }\<close> the one transport call of a first poll has
  the method POST: \<^verbatim>\<open>{ method: 'GET', ...fetchOptions }\<close> takes the method of the options.
\<close>

theorem first_poll_method_overridden:
  "lastValue (watch freshWorld) = None
   \<and> rtype (resolvedInput (urlCallWith ''POST'')) = ''url''
   \<and> map req_method (sentRequests (trace (snd
       (getSpec (\<lambda>b. b) plainNet (urlCallWith ''POST'') freshWorld)))) = [''POST'']"
  by (simp add: eval_defs)

section \<open>The order of the validators\<close>



section \<open>Comparing the content\<close>

text \<open>
  One poll of a URL against a server that answers every request of the poll with success
  and without validators: the GET request is sent, its body decides by comparison with the
  last value, and the decoded body is the new last value in either case.
\<close>

lemma poll_plain:
  assumes url: "rtype (resolvedInput a) = ''url''"
    and srv: "list_all plain (newEvents s (snd (getSpec decode send a s)))"
  shows "\<exists>r. getResponses (newEvents s (snd (getSpec decode send a s))) = [r]
      \<and> fst (getSpec decode send a s) =
          (if Some (decode (bytesOf r)) = lastValue (watch s) then SpecError not_modified r
           else SpecResponse (Some (bytesOf r)) (resolvedInput a))
      \<and> lastValue (watch (snd (getSpec decode send a s))) = Some (decode (bytesOf r))"
proof -
  have fetch: "\<exists>r. trace (snd (getFetch decode send a None t)) = trace t @
          [PreRequest (getContext a), Sent (getRequest a), PostRequest (getContext a) r None]
      \<and> (ok r \<longrightarrow> fst (getFetch decode send a None t) =
          (if Some (decode (bytesOf r)) = lastValue (watch t) then SpecError not_modified r
           else SpecResponse (Some (bytesOf r)) (resolvedInput a))
         \<and> lastValue (watch (snd (getFetch decode send a None t))) = Some (decode (bytesOf r)))"
    if "\<forall>r e. PostRequest (getContext a) r e
            \<in> set (newEvents t (snd (getFetch decode send a None t))) \<longrightarrow> e = None" for t
  proof -
    obtain x n where sent: "send (net t) (getRequest a) = (x, n)"
      by (cases "send (net t) (getRequest a)")
    show ?thesis
      using sent that by (cases x) (simp_all add: newEvents_def getFetch_fail getFetch_reply)
  qed
  show ?thesis
  proof (cases "truthy (lastValue (watch s)) \<and> isHeadMethodSupported (watch s) \<noteq> Some False")
    case False
    then have run: "getSpec decode send a s = getFetch decode send a None s"
      using getSpec_skip [OF url, of s decode send] by auto
    have "\<forall>r e. PostRequest (getContext a) r e
            \<in> set (newEvents s (snd (getFetch decode send a None s))) \<longrightarrow> e = None"
      using srv by (auto simp: run list_all_iff)
    from fetch [OF this] obtain r where
      tr: "trace (snd (getFetch decode send a None s)) = trace s @
          [PreRequest (getContext a), Sent (getRequest a), PostRequest (getContext a) r None]"
      and res: "ok r \<longrightarrow> fst (getFetch decode send a None s) =
          (if Some (decode (bytesOf r)) = lastValue (watch s) then SpecError not_modified r
           else SpecResponse (Some (bytesOf r)) (resolvedInput a))
         \<and> lastValue (watch (snd (getFetch decode send a None s))) = Some (decode (bytesOf r))"
      by blast
    have "ok r" using srv tr by (simp add: run newEvents_def)
    then show ?thesis
      using tr res by (auto simp: run newEvents_def)
  next
    case True
    then have probe: "truthy (lastValue (watch s))" "isHeadMethodSupported (watch s) \<noteq> Some False"
      by simp_all
    obtain x n where sent: "send (net s) (headRequest a (watch s)) = (x, n)"
      by (cases "send (net s) (headRequest a (watch s))")
    show ?thesis
    proof (cases x)
      case (Inl msg)
      then have "\<not> list_all plain (newEvents s (snd (getSpec decode send a s)))"
        using sent by (simp add: getSpec_probe [OF url probe] headProbe_fail newEvents_def)
      then show ?thesis using srv by simp
    next
      case (Inr h)
      note hp = headProbe_reply [where send = send and s = s and a = a, OF sent [unfolded Inr]]
      obtain y s1 where hp1: "headProbe send a s = (y, s1)"
        by (cases "headProbe send a s")
      have tr1: "trace s1 = trace s @ [PreRequest (headContext a (watch s)),
          Sent (headRequest a (watch s)), PostRequest (headContext a (watch s)) h None]"
        using hp hp1 by auto
      obtain es where ext: "trace (snd (getSpec decode send a s)) = trace s1 @ es"
      proof (cases y)
        case (Inl res0)
        then show ?thesis using that [of "[]"] hp1 by (simp add: getSpec_probe [OF url probe])
      next
        case (Inr hc)
        then show ?thesis
          using that hp1 getFetch_events [of decode send a hc s1]
          by (auto simp: getSpec_probe [OF url probe])
      qed
      have ph: "plain (PostRequest (headContext a (watch s)) h None)"
        using srv ext tr1 by (simp add: newEvents_def)
      then have okh: "ok h" and nov: "\<not> truthy (resp_headers h ''ETag'')"
        "\<not> truthy (resp_headers h ''Last-Modified'')"
        by simp_all
      have lt: "\<not> 300 \<le> status h" "status h \<noteq> 304"
        using okh by (simp_all add: ok_def)
      have ah: "fst (afterHead h (watch s)) = Inr None"
        "lastValue (snd (afterHead h (watch s))) = lastValue (watch s)"
        using okh lt nov by (simp_all add: afterHead_def Let_def checkValidators_none)
      then have y: "y = Inr None" and lv1: "lastValue (watch s1) = lastValue (watch s)"
        using hp hp1 lt by auto
      have run: "getSpec decode send a s = getFetch decode send a None s1"
        using hp1 y by (simp add: getSpec_probe [OF url probe])
      have "\<forall>r e. PostRequest (getContext a) r e
              \<in> set (newEvents s1 (snd (getFetch decode send a None s1))) \<longrightarrow> e = None"
        using srv ext tr1 getFetch_events [of decode send a None s1]
        by (auto simp: run newEvents_def list_all_iff)
      from fetch [OF this] obtain r where
        tr: "trace (snd (getFetch decode send a None s1)) = trace s1 @
            [PreRequest (getContext a), Sent (getRequest a), PostRequest (getContext a) r None]"
        and res: "ok r \<longrightarrow> fst (getFetch decode send a None s1) =
            (if Some (decode (bytesOf r)) = lastValue (watch s1) then SpecError not_modified r
             else SpecResponse (Some (bytesOf r)) (resolvedInput a))
           \<and> lastValue (watch (snd (getFetch decode send a None s1)))
               = Some (decode (bytesOf r))"
        by blast
      have "ok r" using srv tr tr1 by (simp add: run newEvents_def)
      then show ?thesis
        using tr tr1 res lv1 by (auto simp: run newEvents_def)
    qed
  qed
qed

text \<open>
  C8. When the GET request succeeds and nothing was decided before (the content
  comparison runs), the last value becomes the decoded body, whether or not it equals the
  previous one. Hence two consecutive polls of a URL, against a server that answers every
  request with success and without validators: each poll fetches one body; the first
  outcome is decided against the last value of before, the second against the first body:
  not-modified when the decoded bodies are equal, the content outcome with the new buffer
  when they differ; and the last value is the decoded second body. Bodies are compared as
  their decoded text.
\<close>

theorem content_fallback_two_polls:
  assumes url: "rtype (resolvedInput a) = ''url''"
    and srv: "list_all plain (newEvents s (snd (session decode send [a, a] s)))"
  shows "(\<exists>r1 r2.
        getResponses (newEvents s (snd (session decode send [a, a] s))) = [r1, r2]
        \<and> fst (session decode send [a, a] s) =
            [if Some (decode (bytesOf r1)) = lastValue (watch s) then SpecError not_modified r1
             else SpecResponse (Some (bytesOf r1)) (resolvedInput a),
             if decode (bytesOf r2) = decode (bytesOf r1) then SpecError not_modified r2
             else SpecResponse (Some (bytesOf r2)) (resolvedInput a)]
        \<and> lastValue (watch (snd (session decode send [a, a] s))) = Some (decode (bytesOf r2)))
      \<and> (send (net t) (getRequest a) = (Inr r, n) \<and> ok r \<longrightarrow>
          lastValue (watch (snd (getFetch decode send a None t))) = Some (decode (bytesOf r)))"
proof -
  obtain res1 s1 where step1: "getSpec decode send a s = (res1, s1)"
    by (cases "getSpec decode send a s")
  obtain res2 s2 where step2: "getSpec decode send a s1 = (res2, s2)"
    by (cases "getSpec decode send a s1")
  have run: "session decode send [a, a] s = ([res1, res2], s2)"
    by (simp add: step1 step2)
  obtain es1 where tr1: "trace s1 = trace s @ es1"
    using getSpec_extends [of decode send a s] step1 by auto
  obtain es2 where tr2: "trace s2 = trace s1 @ es2"
    using getSpec_extends [of decode send a s1] step2 by auto
  have ev: "newEvents s s2 = es1 @ es2" "newEvents s s1 = es1" "newEvents s1 s2 = es2"
    using tr1 tr2 by (simp_all add: newEvents_def)
  have "list_all plain (newEvents s s2)"
    using srv by (simp only: run snd_conv)
  then have pl: "list_all plain es1" "list_all plain es2"
    by (simp_all add: ev)
  obtain r1 where p1: "getResponses es1 = [r1]"
    "res1 = (if Some (decode (bytesOf r1)) = lastValue (watch s) then SpecError not_modified r1
             else SpecResponse (Some (bytesOf r1)) (resolvedInput a))"
    "lastValue (watch s1) = Some (decode (bytesOf r1))"
    using poll_plain [OF url, of s decode send] pl(1) by (auto simp: step1 ev)
  obtain r2 where p2: "getResponses es2 = [r2]"
    "res2 = (if Some (decode (bytesOf r2)) = lastValue (watch s1) then SpecError not_modified r2
             else SpecResponse (Some (bytesOf r2)) (resolvedInput a))"
    "lastValue (watch s2) = Some (decode (bytesOf r2))"
    using poll_plain [OF url, of s1 decode send] pl(2) by (auto simp: step2 ev)
  have polls: "\<exists>r1 r2.
        getResponses (newEvents s (snd (session decode send [a, a] s))) = [r1, r2]
        \<and> fst (session decode send [a, a] s) =
            [if Some (decode (bytesOf r1)) = lastValue (watch s) then SpecError not_modified r1
             else SpecResponse (Some (bytesOf r1)) (resolvedInput a),
             if decode (bytesOf r2) = decode (bytesOf r1) then SpecError not_modified r2
             else SpecResponse (Some (bytesOf r2)) (resolvedInput a)]
        \<and> lastValue (watch (snd (session decode send [a, a] s))) = Some (decode (bytesOf r2))"
    unfolding run fst_conv snd_conv ev
    using p1 p2 by (simp add: getResponses_append)
  have "send (net t) (getRequest a) = (Inr r, n) \<and> ok r \<longrightarrow>
      lastValue (watch (snd (getFetch decode send a None t))) = Some (decode (bytesOf r))"
    by (simp add: getFetch_reply)
  then show ?thesis
    using polls by (rule conjI [rotated])
qed

text \<open>
  A fresh watch state and two polls. The same document twice: content, then not-modified.
  Two different documents: content both times, and the last value is the second document.
\<close>

theorem content_fallback_two_polls_witness:
  "fst (session (\<lambda>b. b) bodiesNet [urlCall, urlCall] (bodiesWorld [''{}'', ''{}''])) =
     [SpecResponse (Some ''{}'') (resolvedInput urlCall),
      SpecError not_modified (plainResponse 200 (Some ''{}''))]
   \<and> fst (session (\<lambda>b. b) bodiesNet [urlCall, urlCall] (bodiesWorld [''{}'', ''{ }''])) =
     [SpecResponse (Some ''{}'') (resolvedInput urlCall),
      SpecResponse (Some ''{ }'') (resolvedInput urlCall)]
   \<and> lastValue (watch (snd (session (\<lambda>b. b) bodiesNet [urlCall, urlCall]
        (bodiesWorld [''{}'', ''{ }''])))) = Some ''{ }''"
proof -
  have u: "rtype (resolvedInput urlCall) = ''url''"
    by (simp add: input_defs)
  have p1: "list_all plain (newEvents (bodiesWorld [''{}'', ''{}''])
      (snd (session (\<lambda>b. b) bodiesNet [urlCall, urlCall] (bodiesWorld [''{}'', ''{}'']))))"
    by (simp add: eval_defs)
  have p2: "list_all plain (newEvents (bodiesWorld [''{}'', ''{ }''])
      (snd (session (\<lambda>b. b) bodiesNet [urlCall, urlCall] (bodiesWorld [''{}'', ''{ }'']))))"
    by (simp add: eval_defs)
  show ?thesis
    using content_fallback_two_polls [where decode = "\<lambda>b. b" and send = bodiesNet, OF u p1]
      content_fallback_two_polls [where decode = "\<lambda>b. b" and send = bodiesNet, OF u p2]
    by (simp add: eval_defs)
qed

section \<open>Failures\<close>








text \<open>
  On a transport whose failures are errors with a message and whose bodies can be read,
  the raw fetcher is the fetcher of the first definitions: it does not raise, and it
  returns the object of the same outcome in the same world.
\<close>

lemma afterHead_raw_afterHead:
  "afterHead_raw r w =
     (case afterHead r w of
        (Inl res, w') \<Rightarrow> (Inl (objectOf res), w')
      | (Inr hc, w') \<Rightarrow> (Inr hc, w'))"
  by (simp add: afterHead_raw_def afterHead_def Let_def case_prod_beta)

lemma finalResult_raw_finalResult:
  "finalResult_raw hc resp b ri = objectOf (finalResult hc resp b ri)"
  by (cases resp) (simp_all add: finalResult_raw_def finalResult_def)

lemma getFetch_raw_rawOf:
  "getFetch_raw decode (rawOf send) a hc s =
     (case getFetch decode send a hc s of (res, s') \<Rightarrow> (Inr (objectOf res), s'))"
proof -
  obtain y n where sent: "send (net s) (getRequest a) = (y, n)"
    by (cases "send (net s) (getRequest a)")
  show ?thesis
    using sent
    by (cases y)
      (auto simp: getFetch_raw_def getFetch_def rawOf_def Let_def readBody_def
        finalResult_raw_finalResult thrownResponse_def thrownMessage_def split: option.splits)
qed

lemma headProbe_raw_rawOf:
  "headProbe_raw (rawOf send) a s =
     (case headProbe send a s of
        (Inl res, s') \<Rightarrow> (Inr (Inl (objectOf res)), s')
      | (Inr hc, s') \<Rightarrow> (Inr (Inr hc), s'))"
proof -
  obtain y n where sent: "send (net s) (headRequest a (watch s)) = (y, n)"
    by (cases "send (net s) (headRequest a (watch s))")
  show ?thesis
    using sent
    by (cases y)
      (auto simp: headProbe_raw_def headProbe_def rawOf_def Let_def afterHead_raw_afterHead
        thrownResponse_def thrownMessage_def split: prod.splits sum.splits)
qed

lemma getSpec_raw_rawOf:
  "getSpec_raw decode (rawOf send) a s =
     (case getSpec decode send a s of (res, s') \<Rightarrow> (Inr (objectOf res), s'))"
  by (auto simp: getSpec_raw_def getSpec_def headProbe_raw_rawOf getFetch_raw_rawOf
      noFetch_raw_def noFetch_def Let_def finalResult_raw_finalResult
      split: prod.splits sum.splits)




text \<open>
  The two raises of the source: a send rejected with \<^verbatim>\<open>undefined\<close> rejects the call
  with the \<^verbatim>\<open>TypeError\<close> of the catch block, before the post-request hook is called;
  and a body that cannot be read rejects the call with the error of the read.
\<close>

lemma nullish_rejection_raises:
  "getSpec_raw (\<lambda>b. b) nullishNet urlCall freshWorld =
     (Inl TypeError,
      freshWorld\<lparr>trace := [PreRequest (getContext urlCall), Sent (getRequest urlCall)]\<rparr>)"
  by (simp add: eval_defs raw_defs)

lemma unreadable_body_raises:
  "fst (getSpec_raw (\<lambda>b. b) brokenBodyNet urlCall freshWorld) = Inl (BodyError ''terminated'')"
  by (simp add: eval_defs raw_defs)

section \<open>The headers of the two requests\<close>

text \<open>
  C10. The transport calls of a call are the HEAD request, when the probe is due, followed
  by at most the GET request. The HEAD request carries the merge of the caller's headers
  with the watch headers, so every stored validator is in it. The GET request carries the
  headers of \<^verbatim>\<open>fetchOptions\<close> and nothing else: \<open>getRequest\<close> is a function of the
  arguments of the call and not of the watch state.
\<close>

theorem validators_only_on_head_request:
  "(\<exists>rest. sentRequests (newEvents s (snd (getSpec decode send a s))) =
       (if rtype (resolvedInput a) = ''url'' \<and> truthy (lastValue (watch s))
           \<and> isHeadMethodSupported (watch s) \<noteq> Some False
        then [headRequest a (watch s)] else []) @ rest
     \<and> (rest = [] \<or> rest = [getRequest a]))
   \<and> req_headers (headRequest a (watch s)) =
       Some (mergeHeaders (fo_headers (fetchOptions a)) (Some (headers (watch s))))
   \<and> (\<forall>k v. headers (watch s) k = Some v \<longrightarrow>
         mergeHeaders (fo_headers (fetchOptions a)) (Some (headers (watch s))) k = Some v)
   \<and> req_headers (getRequest a) = fo_headers (fetchOptions a)"
proof -
  consider (nonurl) "rtype (resolvedInput a) \<noteq> ''url''"
    | (skipped) "rtype (resolvedInput a) = ''url''"
        "\<not> truthy (lastValue (watch s)) \<or> isHeadMethodSupported (watch s) = Some False"
    | (probed) "rtype (resolvedInput a) = ''url''" "truthy (lastValue (watch s))"
        "isHeadMethodSupported (watch s) \<noteq> Some False"
    by blast
  then have sent: "\<exists>rest. sentRequests (newEvents s (snd (getSpec decode send a s))) =
       (if rtype (resolvedInput a) = ''url'' \<and> truthy (lastValue (watch s))
           \<and> isHeadMethodSupported (watch s) \<noteq> Some False
        then [headRequest a (watch s)] else []) @ rest
     \<and> (rest = [] \<or> rest = [getRequest a])"
  proof cases
    case nonurl
    then show ?thesis
      by (simp add: getSpec_file noFetch_def Let_def newEvents_def)
  next
    case skipped
    then show ?thesis
      using getFetch_events [of decode send a None s] getSpec_skip [of a s decode send]
      by (auto simp: newEvents_def)
  next
    case probed
    obtain x s1 where hp: "headProbe send a s = (x, s1)"
      by (cases "headProbe send a s")
    obtain r0 e0 where tr1: "trace s1 = trace s @
         [PreRequest (headContext a (watch s)), Sent (headRequest a (watch s)),
          PostRequest (headContext a (watch s)) r0 e0]"
      using headProbe_events [of send a s] hp by auto
    show ?thesis
    proof (cases x)
      case (Inl res0)
      then show ?thesis
        using hp tr1 probed by (simp add: getSpec_probe newEvents_def)
    next
      case (Inr hc)
      obtain r1 e1 where "trace (snd (getFetch decode send a hc s1)) = trace s1 @
           [PreRequest (getContext a), Sent (getRequest a), PostRequest (getContext a) r1 e1]"
        using getFetch_events [of decode send a hc s1] by auto
      then show ?thesis
        using hp tr1 probed Inr by (simp add: getSpec_probe newEvents_def)
    qed
  qed
  have "headers (watch s) k = Some v \<Longrightarrow>
      mergeHeaders (fo_headers (fetchOptions a)) (Some (headers (watch s))) k = Some v" for k v
    by (simp add: mergeHeaders_def map_add_Some_iff)
  then show ?thesis
    using sent by (simp add: headRequest_def getRequest_def)
qed

text \<open>
  A poll with a stored entity tag against a server without validators: the HEAD request
  carries \<^verbatim>\<open>If-None-Match\<close>, the GET request that follows carries no headers at all.
\<close>

theorem validators_only_on_head_request_witness:
  "sentRequests (newEvents (polledWorld None)
       (snd (getSpec (\<lambda>b. b) plainNet urlCall (polledWorld None))))
     = [headRequest urlCall (watch (polledWorld None)), getRequest urlCall]
   \<and> the (req_headers (headRequest urlCall (watch (polledWorld None)))) ''If-None-Match''
       = Some ''v1''
   \<and> req_headers (getRequest urlCall) = None"
  using validators_only_on_head_request
    [where s = "polledWorld None" and a = urlCall and send = plainNet and decode = "\<lambda>b. b"]
  by (simp add: eval_defs)

end
